theory Spec2Isabelle
  imports Main
begin

section \<open>Session identity (lib/session)\<close>

text \<open>
  The browser's \<^verbatim>\<open>localStorage\<close> is a finite map from keys to strings;
  \<^verbatim>\<open>getItem\<close> of a key that is not stored is \<^verbatim>\<open>null\<close>, here \<open>None\<close>.
\<close>

type_synonym local_storage = "string \<rightharpoonup> string"

definition getItem :: "local_storage \<Rightarrow> string \<Rightarrow> string option" where
  "getItem ls k = ls k"

definition setItem :: "local_storage \<Rightarrow> string \<Rightarrow> string \<Rightarrow> local_storage" where
  "setItem ls k v = ls(k \<mapsto> v)"

definition removeItem :: "local_storage \<Rightarrow> string \<Rightarrow> local_storage" where
  "removeItem ls k = ls(k := None)"

definition SESSION_KEY :: string where
  "SESSION_KEY = ''lead_capture_session_id''"

text \<open>
  The two sources of fresh data that \<^verbatim>\<open>generateSessionId\<close> reads:
  \<^verbatim>\<open>Date.now()\<close>, an integral number of milliseconds, and the string
  \<^verbatim>\<open>Math.random().toString(36).substr(2, 9)\<close>.
\<close>

record clock =
  now :: nat
  random_suffix :: string

text \<open>
  A template literal renders an integral number in decimal; \<^verbatim>\<open>Date.now()\<close> counts
  from 1970 and is not negative.
\<close>

definition digits :: string where
  "digits = ''0123456789''"

definition digit_char :: "nat \<Rightarrow> char" where
  "digit_char d = digits ! d"

fun number_to_string :: "nat \<Rightarrow> string" where
  "number_to_string n =
     (if n < 10 then [digit_char n]
      else number_to_string (n div 10) @ [digit_char (n mod 10)])"

declare number_to_string.simps [simp del]

definition generateSessionId :: "clock \<Rightarrow> string" where
  "generateSessionId clk =
     ''session_'' @ number_to_string (now clk) @ ''_'' @ random_suffix clk"

text \<open>
  \<^verbatim>\<open>!sessionId\<close> on a value of type \<^verbatim>\<open>string | null\<close>: true for
  \<^verbatim>\<open>null\<close> and for the empty string.
\<close>

fun falsy :: "string option \<Rightarrow> bool" where
  "falsy None = True"
| "falsy (Some s) = (s = [])"

definition getOrCreateSessionId :: "clock \<Rightarrow> local_storage \<Rightarrow> string \<times> local_storage" where
  "getOrCreateSessionId clk ls =
     (case getItem ls SESSION_KEY of
        None \<Rightarrow>
          (let sessionId = generateSessionId clk
           in (sessionId, setItem ls SESSION_KEY sessionId))
      | Some stored \<Rightarrow>
          if falsy (Some stored)
          then (let sessionId = generateSessionId clk
                in (sessionId, setItem ls SESSION_KEY sessionId))
          else (stored, ls))"

definition clearSessionId :: "local_storage \<Rightarrow> local_storage" where
  "clearSessionId ls = removeItem ls SESSION_KEY"

section \<open>Form data, validation errors, leads\<close>

text \<open>
  The component's \<^verbatim>\<open>formData\<close>, the row handed to the \<^verbatim>\<open>leads\<close> table
  (the form fields plus \<^verbatim>\<open>session_id\<close>) and the lead handed to the store
  (that row plus \<^verbatim>\<open>submitted_at\<close>).
\<close>

record form_data =
  name :: string
  email :: string
  industry :: string

record lead_row = form_data +
  session_id :: string

record lead = lead_row +
  submitted_at :: string

record validation_error =
  field :: string
  message :: string

definition empty_form :: form_data where
  "empty_form = \<lparr>name = '''', email = '''', industry = ''''\<rparr>"

text \<open>The values of the \<^verbatim>\<open>SelectItem\<close>s offered by the industry control.\<close>

definition industry_options :: "string list" where
  "industry_options =
     [''technology'', ''healthcare'', ''finance'', ''education'',
      ''retail'', ''manufacturing'', ''consulting'', ''other'']"

subsection \<open>The validator\<close>

definition is_space :: "char \<Rightarrow> bool" where
  "is_space c = (c \<in> set [CHR '' '', CHR 0x09, CHR 0x0A, CHR 0x0B, CHR 0x0C, CHR 0x0D])"

definition trim :: "string \<Rightarrow> string" where
  "trim s = rev (dropWhile is_space (rev (dropWhile is_space s)))"

text \<open>
  Modelled from the spec: \<^verbatim>\<open>validateLeadForm\<close> of \<^verbatim>\<open>lib/validation\<close> is
  imported by the form but its source is not part of the files at hand. The rules are
  those of the specification's Form Validator: the name fails \<^verbatim>\<open>required\<close> if it is
  empty after trimming; the email fails \<^verbatim>\<open>required\<close> if it is empty and
  \<^verbatim>\<open>format\<close> if it is not empty and does not match the email grammar; the industry
  fails \<^verbatim>\<open>required\<close> if it is not one of the enumerated categories. The email
  grammar is left open by the specification and is a parameter here. The submission
  handler below takes the validator as a parameter; this one instantiates it on concrete
  inputs.
\<close>

definition validateLeadForm :: "(string \<Rightarrow> bool) \<Rightarrow> form_data \<Rightarrow> validation_error list" where
  "validateLeadForm email_grammar fd =
     (if trim (name fd) = [] then [\<lparr>field = ''name'', message = ''required''\<rparr>] else []) @
     (if email fd = [] then [\<lparr>field = ''email'', message = ''required''\<rparr>]
      else if email_grammar (email fd) then []
      else [\<lparr>field = ''email'', message = ''format''\<rparr>]) @
     (if industry fd \<in> set industry_options then []
      else [\<lparr>field = ''industry'', message = ''required''\<rparr>])"

text \<open>A simple email shape for concrete inputs: something, an at sign, something.\<close>

definition simple_email :: "string \<Rightarrow> bool" where
  "simple_email s =
     (takeWhile (\<lambda>c. c \<noteq> CHR ''@'') s \<noteq> [] \<and>
      length (dropWhile (\<lambda>c. c \<noteq> CHR ''@'') s) > 1)"

section \<open>The global submission state store (lib/lead-store)\<close>

record lead_store =
  submitted :: bool
  sessionLeads :: "lead list"

definition initial_store :: lead_store where
  "initial_store = \<lparr>submitted = False, sessionLeads = []\<rparr>"

text \<open>
  Modelled from the spec: the store behind \<^verbatim>\<open>useLeadStore\<close> of
  \<^verbatim>\<open>lib/lead-store\<close> is used by the form but its source is not part of the files at
  hand. The specification's contract: \<^verbatim>\<open>setSubmitted(bool)\<close> sets the flag,
  \<^verbatim>\<open>addLead(Lead)\<close> appends to the ordered sequence of leads of the page lifetime.
\<close>

definition setSubmitted :: "bool \<Rightarrow> lead_store \<Rightarrow> lead_store" where
  "setSubmitted b st = st\<lparr>submitted := b\<rparr>"

definition addLead :: "lead \<Rightarrow> lead_store \<Rightarrow> lead_store" where
  "addLead l st = st\<lparr>sessionLeads := sessionLeads st @ [l]\<rparr>"

section \<open>The lead capture form (components/LeadCaptureForm)\<close>

subsection \<open>State and effects\<close>

record component_state =
  formData :: form_data
  validationErrors :: "validation_error list"
  isSubmitting :: bool

definition initial_component :: component_state where
  "initial_component =
     \<lparr>formData = empty_form, validationErrors = [], isSubmitting = False\<rparr>"

text \<open>
  What the handler does to the outside, in the order it does it: the insert into a table,
  the invocation of a serverless function, and the lines written to the console (the
  message and the error that goes with it).
\<close>

datatype effect =
    DbInsert string lead_row
  | FnInvoke string form_data
  | ConsoleError string string
  | ConsoleLog string

text \<open>
  A remote call of the client library resolves to an object with a \<^verbatim>\<open>data\<close> and an
  \<^verbatim>\<open>error\<close> member; the call failed when \<^verbatim>\<open>error\<close> is not null. The
  library hands every failure back in \<^verbatim>\<open>error\<close>, also one of the transport, and
  does not reject the promise. The handler reads nothing but \<^verbatim>\<open>error\<close>: it
  names \<^verbatim>\<open>data\<close> of the insert and never uses it.
\<close>

record 'a response =
  data :: "'a option"
  error :: "string option"

record world =
  comp :: component_state
  store :: lead_store
  localStorage :: local_storage
  effects :: "effect list"

definition perform :: "effect \<Rightarrow> world \<Rightarrow> world" where
  "perform e w = w\<lparr>effects := effects w @ [e]\<rparr>"

definition setValidationErrors :: "validation_error list \<Rightarrow> world \<Rightarrow> world" where
  "setValidationErrors errs w = w\<lparr>comp := (comp w)\<lparr>validationErrors := errs\<rparr>\<rparr>"

definition setIsSubmitting :: "bool \<Rightarrow> world \<Rightarrow> world" where
  "setIsSubmitting b w = w\<lparr>comp := (comp w)\<lparr>isSubmitting := b\<rparr>\<rparr>"

definition setFormData :: "form_data \<Rightarrow> world \<Rightarrow> world" where
  "setFormData fd w = w\<lparr>comp := (comp w)\<lparr>formData := fd\<rparr>\<rparr>"

subsection \<open>handleSubmit\<close>

text \<open>
  The handler is asynchronous: it runs up to the first \<^verbatim>\<open>await\<close>, is resumed when
  the insert resolves, and is resumed again when the invocation resolves. What is
  suspended keeps the \<^verbatim>\<open>formData\<close> of the render the handler belongs to and the
  session identifier it read.
\<close>

datatype pending =
    AwaitInsert form_data string
  | AwaitInvoke form_data string

text \<open>The \<^verbatim>\<open>catch\<close> and \<^verbatim>\<open>finally\<close> blocks.\<close>

definition catch_block :: "string \<Rightarrow> world \<Rightarrow> world" where
  "catch_block thrown w = perform (ConsoleError ''Error submitting form:'' thrown) w"

definition finally_block :: "world \<Rightarrow> world" where
  "finally_block w = setIsSubmitting False w"

text \<open>From the submit event to the first \<^verbatim>\<open>await\<close>.\<close>

definition handleSubmit_begin ::
  "(form_data \<Rightarrow> validation_error list) \<Rightarrow> clock \<Rightarrow> world \<Rightarrow> world \<times> pending option" where
  "handleSubmit_begin validate clk w =
     (let fd = formData (comp w);
          errors = validate fd;
          w1 = setValidationErrors errors w
      in if length errors = 0
         then (let w2 = setIsSubmitting True w1;
                   (sessionId, ls) = getOrCreateSessionId clk (localStorage w2);
                   w3 = w2\<lparr>localStorage := ls\<rparr>;
                   w4 = perform (DbInsert ''leads''
                          \<lparr>name = name fd, email = email fd, industry = industry fd,
                           session_id = sessionId\<rparr>) w3
               in (w4, Some (AwaitInsert fd sessionId)))
         else (w1, None))"

text \<open>From the resolution of the insert to the second \<^verbatim>\<open>await\<close>, or to the end.\<close>

definition handleSubmit_inserted ::
  "lead_row response \<Rightarrow> form_data \<Rightarrow> string \<Rightarrow> world \<Rightarrow> world \<times> pending option" where
  "handleSubmit_inserted r fd sessionId w =
     (case error r of
        Some dbError \<Rightarrow>
          (finally_block
             (catch_block ''Failed to save lead data''
                (perform (ConsoleError ''Error saving to database:'' dbError) w)),
           None)
      | None \<Rightarrow>
          (perform (FnInvoke ''send-confirmation''
                      \<lparr>name = name fd, email = email fd, industry = industry fd\<rparr>) w,
           Some (AwaitInvoke fd sessionId)))"

text \<open>
  From the resolution of the invocation to the end; \<open>timestamp\<close> is
  \<^verbatim>\<open>new Date().toISOString()\<close> at that moment.
\<close>

definition handleSubmit_invoked ::
  "unit response \<Rightarrow> string \<Rightarrow> form_data \<Rightarrow> string \<Rightarrow> world \<Rightarrow> world" where
  "handleSubmit_invoked r timestamp fd sessionId w =
     (let w1 = (case error r of
                  Some emailError \<Rightarrow>
                    perform (ConsoleError ''Error sending confirmation email:'' emailError) w
                | None \<Rightarrow> perform (ConsoleLog ''Confirmation email sent successfully'') w);
          l = \<lparr>name = name fd, email = email fd, industry = industry fd,
               session_id = sessionId, submitted_at = timestamp\<rparr>;
          w2 = w1\<lparr>store := addLead l (store w1)\<rparr>;
          w3 = w2\<lparr>store := setSubmitted True (store w2)\<rparr>;
          w4 = setFormData \<lparr>name = '''', email = '''', industry = ''''\<rparr> w3
      in finally_block w4)"

text \<open>What the two remote calls resolve to, and the time when the second one has.\<close>

record remote =
  insert_response :: "lead_row response"
  invoke_response :: "unit response"
  completion_time :: string

fun settle :: "remote \<Rightarrow> pending \<Rightarrow> world \<Rightarrow> world \<times> pending option" where
  "settle rm (AwaitInsert fd sessionId) w =
     handleSubmit_inserted (insert_response rm) fd sessionId w"
| "settle rm (AwaitInvoke fd sessionId) w =
     (handleSubmit_invoked (invoke_response rm) (completion_time rm) fd sessionId w, None)"

text \<open>
  A suspended handler run to its end: it is resumed at most twice, once for each
  \<^verbatim>\<open>await\<close>.
\<close>

definition resolve :: "remote \<Rightarrow> pending \<Rightarrow> world \<Rightarrow> world" where
  "resolve rm p w =
     (case settle rm p w of
        (w1, None) \<Rightarrow> w1
      | (w1, Some p1) \<Rightarrow> fst (settle rm p1 w1))"

text \<open>One whole run of the handler, from the submit event to its end.\<close>

definition handleSubmit ::
  "(form_data \<Rightarrow> validation_error list) \<Rightarrow> clock \<Rightarrow> remote \<Rightarrow> world \<Rightarrow> world" where
  "handleSubmit validate clk rm w =
     (case handleSubmit_begin validate clk w of
        (w1, None) \<Rightarrow> w1
      | (w1, Some p) \<Rightarrow> resolve rm p w1)"

text \<open>The effects of a run: what it added to those of the world it started from.\<close>

definition emitted :: "world \<Rightarrow> world \<Rightarrow> effect list" where
  "emitted w w' = drop (length (effects w)) (effects w')"

fun is_invoke :: "effect \<Rightarrow> bool" where
  "is_invoke (FnInvoke f b) = True"
| "is_invoke e = False"

fun is_remote_call :: "effect \<Rightarrow> bool" where
  "is_remote_call (DbInsert t r) = True"
| "is_remote_call (FnInvoke f b) = True"
| "is_remote_call e = False"

fun inserted_rows :: "effect list \<Rightarrow> lead_row list" where
  "inserted_rows [] = []"
| "inserted_rows (DbInsert t r # es) = r # inserted_rows es"
| "inserted_rows (e # es) = inserted_rows es"

subsection \<open>What is rendered\<close>

definition getFieldError :: "validation_error list \<Rightarrow> string \<Rightarrow> string option" where
  "getFieldError errs f = map_option message (find (\<lambda>e. field e = f) errs)"

text \<open>
  A control of the form: the value it shows, whether it is disabled, and the error
  paragraph under it (rendered when \<^verbatim>\<open>getFieldError\<close> is truthy).
\<close>

record control =
  shown :: string
  disabled :: bool
  error_text :: "string option"

record view =
  name_control :: control
  email_control :: control
  industry_control :: control
  button_disabled :: bool
  button_label :: string

definition render_control :: "component_state \<Rightarrow> string \<Rightarrow> string \<Rightarrow> control" where
  "render_control c f v =
     \<lparr>shown = v, disabled = isSubmitting c,
      error_text = (if falsy (getFieldError (validationErrors c) f) then None
                    else getFieldError (validationErrors c) f)\<rparr>"

definition render :: "component_state \<Rightarrow> view" where
  "render c =
     \<lparr>name_control = render_control c ''name'' (name (formData c)),
      email_control = render_control c ''email'' (email (formData c)),
      industry_control = render_control c ''industry'' (industry (formData c)),
      button_disabled = isSubmitting c,
      button_label = (if isSubmitting c then ''Submitting...'' else ''Get Early Access'')\<rparr>"

text \<open>
  The form's submit event reaches \<^verbatim>\<open>handleSubmit\<close> through the submit button; a
  disabled button delivers none.
\<close>

definition click_submit ::
  "(form_data \<Rightarrow> validation_error list) \<Rightarrow> clock \<Rightarrow> world \<Rightarrow> world \<times> pending option" where
  "click_submit validate clk w =
     (if button_disabled (render (comp w)) then (w, None)
      else handleSubmit_begin validate clk w)"

text \<open>
  The session identifier a run of the handler reads, and the row it hands to the table.
\<close>

abbreviation (input) sid :: "clock \<Rightarrow> world \<Rightarrow> string" where
  "sid clk w \<equiv> fst (getOrCreateSessionId clk (localStorage w))"

abbreviation (input) row_of :: "clock \<Rightarrow> world \<Rightarrow> lead_row" where
  "row_of clk w \<equiv>
   \<lparr>name = name (formData (comp w)), email = email (formData (comp w)),
    industry = industry (formData (comp w)), session_id = sid clk w\<rparr>"

subsection \<open>Concrete inputs\<close>

definition ana_form :: form_data where
  "ana_form = \<lparr>name = ''Ana'', email = ''ana@x.com'', industry = ''technology''\<rparr>"

definition bad_form :: form_data where
  "bad_form = \<lparr>name = '''', email = ''bad'', industry = ''''\<rparr>"

definition fresh_world :: "form_data \<Rightarrow> world" where
  "fresh_world fd =
     \<lparr>comp = \<lparr>formData = fd, validationErrors = [], isSubmitting = False\<rparr>,
      store = initial_store, localStorage = Map.empty, effects = []\<rparr>"

definition sample_clock :: clock where
  "sample_clock = \<lparr>now = 1720000000123, random_suffix = ''k3j9x0a1b''\<rparr>"

definition later_clock :: clock where
  "later_clock = \<lparr>now = 1720000000456, random_suffix = ''zz81hq0p2''\<rparr>"

definition succeeded :: "'a response" where
  "succeeded = \<lparr>data = None, error = None\<rparr>"

definition failed :: "string \<Rightarrow> 'a response" where
  "failed e = \<lparr>data = None, error = Some e\<rparr>"

definition outcome :: "lead_row response \<Rightarrow> unit response \<Rightarrow> remote" where
  "outcome db fn =
     \<lparr>insert_response = db, invoke_response = fn,
      completion_time = ''2024-07-03T09:46:40.500Z''\<rparr>"

text \<open>The world right after a click on the button of a valid, idle form.\<close>

definition in_flight :: world where
  "in_flight = fst (click_submit (validateLeadForm simple_email) sample_clock (fresh_world ana_form))"

section \<open>The industry column migration (supabase/migrations)\<close>

text \<open>
  A table is its columns, each with a type, a \<^verbatim>\<open>NOT NULL\<close> flag and a default,
  and its rows; a row maps a column to its value, \<open>None\<close> for \<^verbatim>\<open>NULL\<close>.
\<close>

record column =
  col_type :: string
  not_null :: bool
  col_default :: "string option"

type_synonym row = "string \<rightharpoonup> string"

record table =
  columns :: "string \<rightharpoonup> column"
  rows :: "row list"

datatype sql_error =
    DuplicateColumn string
  | UndefinedColumn string
  | NotNullViolation string

text \<open>
  \<^verbatim>\<open>ALTER TABLE ... ADD COLUMN c ty\<close>: fails if the column exists; the new column has
  no default, so it is \<^verbatim>\<open>NULL\<close> in every existing row.
\<close>

definition add_column :: "string \<Rightarrow> string \<Rightarrow> table \<Rightarrow> sql_error + table" where
  "add_column c ty t =
     (case columns t c of
        Some existing \<Rightarrow> Inl (DuplicateColumn c)
      | None \<Rightarrow>
          Inr \<lparr>columns = (columns t)(c \<mapsto> \<lparr>col_type = ty, not_null = False, col_default = None\<rparr>),
               rows = map (\<lambda>r. r(c := None)) (rows t)\<rparr>)"

text \<open>\<^verbatim>\<open>UPDATE ... SET c = v WHERE c IS NULL\<close>.\<close>

definition update_where_null :: "string \<Rightarrow> string \<Rightarrow> table \<Rightarrow> sql_error + table" where
  "update_where_null c v t =
     (case columns t c of
        None \<Rightarrow> Inl (UndefinedColumn c)
      | Some col \<Rightarrow>
          Inr (t\<lparr>rows := map (\<lambda>r. if r c = None then r(c \<mapsto> v) else r) (rows t)\<rparr>))"

text \<open>
  \<^verbatim>\<open>ALTER TABLE ... ALTER COLUMN c SET NOT NULL\<close>: fails if a row holds
  \<^verbatim>\<open>NULL\<close> in the column.
\<close>

definition set_not_null :: "string \<Rightarrow> table \<Rightarrow> sql_error + table" where
  "set_not_null c t =
     (case columns t c of
        None \<Rightarrow> Inl (UndefinedColumn c)
      | Some col \<Rightarrow>
          if list_ex (\<lambda>r. r c = None) (rows t) then Inl (NotNullViolation c)
          else Inr (t\<lparr>columns := (columns t)(c \<mapsto> col\<lparr>not_null := True\<rparr>)\<rparr>))"

text \<open>\<^verbatim>\<open>ALTER TABLE ... ALTER COLUMN c SET DEFAULT v\<close>.\<close>

definition set_default :: "string \<Rightarrow> string \<Rightarrow> table \<Rightarrow> sql_error + table" where
  "set_default c v t =
     (case columns t c of
        None \<Rightarrow> Inl (UndefinedColumn c)
      | Some col \<Rightarrow> Inr (t\<lparr>columns := (columns t)(c \<mapsto> col\<lparr>col_default := Some v\<rparr>)\<rparr>))"

text \<open>Statements run in order; the first that fails ends the script with its error.\<close>

fun and_then :: "sql_error + table \<Rightarrow> (table \<Rightarrow> sql_error + table) \<Rightarrow> sql_error + table" where
  "and_then (Inl e) f = Inl e"
| "and_then (Inr t) f = f t"

definition migration :: "table \<Rightarrow> sql_error + table" where
  "migration t =
     and_then
       (and_then
          (and_then (add_column ''industry'' ''TEXT'' t)
             (update_where_null ''industry'' ''Other''))
          (set_not_null ''industry''))
       (set_default ''industry'' ''Other'')"

text \<open>A table of two leads captured before the form asked for an industry.\<close>

definition legacy_leads :: table where
  "legacy_leads =
     \<lparr>columns = [''name'' \<mapsto> \<lparr>col_type = ''TEXT'', not_null = True, col_default = None\<rparr>,
                 ''email'' \<mapsto> \<lparr>col_type = ''TEXT'', not_null = True, col_default = None\<rparr>],
      rows = [[''name'' \<mapsto> ''Ana'', ''email'' \<mapsto> ''ana@x.com''],
              [''name'' \<mapsto> ''Bo'', ''email'' \<mapsto> ''bo@y.org'']]\<rparr>"

section \<open>Facts about the session identity\<close>

lemma distinct_digits: "distinct digits"
  by (simp add: digits_def)

lemma length_digits: "length digits = 10"
  by (simp add: digits_def)

lemma digit_char_inj: "a < 10 \<Longrightarrow> b < 10 \<Longrightarrow> digit_char a = digit_char b \<Longrightarrow> a = b"
  unfolding digit_char_def
  using distinct_digits length_digits by (simp add: nth_eq_iff_index_eq)

lemma digit_char_not_underscore: "d < 10 \<Longrightarrow> digit_char d \<noteq> CHR ''_''"
proof
  assume d: "d < 10" and eq: "digit_char d = CHR ''_''"
  from d have "digits ! d \<in> set digits"
    by (intro nth_mem) (simp add: length_digits)
  with eq show False by (simp add: digit_char_def digits_def)
qed

lemma number_to_string_nonempty: "number_to_string n \<noteq> []"
  by (subst number_to_string.simps) simp

lemma number_to_string_digits: "CHR ''_'' \<notin> set (number_to_string n)"
proof (induction n rule: number_to_string.induct)
  case (1 n)
  show ?case
  proof (cases "n < 10")
    case True
    then show ?thesis
      using digit_char_not_underscore [of n]
      by (subst number_to_string.simps) auto
  next
    case False
    with 1 show ?thesis
      using digit_char_not_underscore [of "n mod 10"]
      by (subst number_to_string.simps) auto
  qed
qed

lemma number_to_string_inj: "number_to_string m = number_to_string n \<Longrightarrow> m = n"
proof (induction m arbitrary: n rule: number_to_string.induct)
  case (1 m)
  show ?case
  proof (cases "m < 10")
    case m: True
    show ?thesis
    proof (cases "n < 10")
      case True
      with m 1(2) show ?thesis
        using digit_char_inj [of m n]
        by (simp add: number_to_string.simps [of m] number_to_string.simps [of n])
    next
      case False
      with m 1(2) show ?thesis
        using number_to_string_nonempty [of "n div 10"]
        by (simp add: number_to_string.simps [of m] number_to_string.simps [of n])
    qed
  next
    case m: False
    show ?thesis
    proof (cases "n < 10")
      case True
      with m 1(2) show ?thesis
        using number_to_string_nonempty [of "m div 10"]
        by (simp add: number_to_string.simps [of m] number_to_string.simps [of n])
    next
      case False
      with m 1(2) have eq: "number_to_string (m div 10) = number_to_string (n div 10)"
        and d: "digit_char (m mod 10) = digit_char (n mod 10)"
        by (simp_all add: number_to_string.simps [of m] number_to_string.simps [of n])
      from 1(1) [OF m eq] have "m div 10 = n div 10" .
      moreover from d have "m mod 10 = n mod 10"
        using digit_char_inj [of "m mod 10" "n mod 10"] by simp
      ultimately show ?thesis
        by (metis div_mult_mod_eq)
    qed
  qed
qed

lemma split_at_separator:
  assumes "c \<notin> set a" "c \<notin> set b" "a @ c # r = b @ c # s"
  shows "a = b \<and> r = s"
proof -
  have "takeWhile (\<lambda>x. x \<noteq> c) (a @ c # r) = a" using assms(1)
    by (induction a) auto
  moreover have "takeWhile (\<lambda>x. x \<noteq> c) (b @ c # s) = b" using assms(2)
    by (induction b) auto
  ultimately have "a = b" using assms(3) by simp
  with assms(3) show ?thesis by simp
qed

lemma generateSessionId_inj:
  assumes "generateSessionId c1 = generateSessionId c2"
  shows "now c1 = now c2 \<and> random_suffix c1 = random_suffix c2"
proof -
  from assms have
    "number_to_string (now c1) @ CHR ''_'' # random_suffix c1 =
     number_to_string (now c2) @ CHR ''_'' # random_suffix c2"
    by (simp add: generateSessionId_def)
  from split_at_separator [OF number_to_string_digits number_to_string_digits this]
  have "number_to_string (now c1) = number_to_string (now c2)"
    and "random_suffix c1 = random_suffix c2"
    by simp_all
  then show ?thesis
    using number_to_string_inj by blast
qed

lemma generateSessionId_nonempty: "generateSessionId clk \<noteq> []"
  by (simp add: generateSessionId_def)

lemma getOrCreateSessionId_nonempty: "fst (getOrCreateSessionId clk ls) \<noteq> []"
  by (cases "getItem ls SESSION_KEY")
     (simp_all add: getOrCreateSessionId_def Let_def generateSessionId_nonempty)

lemma getOrCreateSessionId_stored:
  "getItem (snd (getOrCreateSessionId clk ls)) SESSION_KEY = Some (fst (getOrCreateSessionId clk ls))"
  by (cases "getItem ls SESSION_KEY")
     (auto simp add: getOrCreateSessionId_def Let_def getItem_def setItem_def)

lemma getOrCreateSessionId_reads_stored:
  "getItem ls SESSION_KEY = Some s \<Longrightarrow> s \<noteq> [] \<Longrightarrow> getOrCreateSessionId clk ls = (s, ls)"
  by (simp add: getOrCreateSessionId_def)

section \<open>Facts about the submission handler\<close>

lemma handleSubmit_begin_invalid:
  "validate (formData (comp w)) \<noteq> [] \<Longrightarrow>
   handleSubmit_begin validate clk w = (setValidationErrors (validate (formData (comp w))) w, None)"
  by (simp add: handleSubmit_begin_def Let_def)

lemma handleSubmit_begin_valid:
  "validate (formData (comp w)) = [] \<Longrightarrow>
   handleSubmit_begin validate clk w =
     (w\<lparr>comp := (comp w)\<lparr>validationErrors := [], isSubmitting := True\<rparr>,
        localStorage := snd (getOrCreateSessionId clk (localStorage w)),
        effects := effects w @ [DbInsert ''leads'' (row_of clk w)]\<rparr>,
      Some (AwaitInsert (formData (comp w)) (sid clk w)))"
  by (simp add: handleSubmit_begin_def Let_def setValidationErrors_def
      setIsSubmitting_def perform_def split: prod.splits)

lemma handleSubmit_invalid:
  "validate (formData (comp w)) \<noteq> [] \<Longrightarrow>
   handleSubmit validate clk rm w = setValidationErrors (validate (formData (comp w))) w"
  by (simp add: handleSubmit_def handleSubmit_begin_invalid)

lemma handleSubmit_insert_failed:
  "validate (formData (comp w)) = [] \<Longrightarrow> error (insert_response rm) = Some dbError \<Longrightarrow>
   handleSubmit validate clk rm w =
     w\<lparr>comp := (comp w)\<lparr>validationErrors := [], isSubmitting := False\<rparr>,
       localStorage := snd (getOrCreateSessionId clk (localStorage w)),
       effects := effects w @
         [DbInsert ''leads'' (row_of clk w),
          ConsoleError ''Error saving to database:'' dbError,
          ConsoleError ''Error submitting form:'' ''Failed to save lead data'']\<rparr>"
  by (simp add: handleSubmit_def handleSubmit_begin_valid resolve_def handleSubmit_inserted_def
      finally_block_def catch_block_def perform_def setIsSubmitting_def)

lemma handleSubmit_persisted:
  "validate (formData (comp w)) = [] \<Longrightarrow> error (insert_response rm) = None \<Longrightarrow>
   handleSubmit validate clk rm w =
     w\<lparr>comp := \<lparr>formData = \<lparr>name = '''', email = '''', industry = ''''\<rparr>,
                 validationErrors = [], isSubmitting = False\<rparr>,
       store := \<lparr>submitted = True,
                  sessionLeads = sessionLeads (store w) @
                    [\<lparr>name = name (formData (comp w)), email = email (formData (comp w)),
                      industry = industry (formData (comp w)), session_id = sid clk w,
                      submitted_at = completion_time rm\<rparr>]\<rparr>,
       localStorage := snd (getOrCreateSessionId clk (localStorage w)),
       effects := effects w @
         [DbInsert ''leads'' (row_of clk w),
          FnInvoke ''send-confirmation'' (formData (comp w)),
          (case error (invoke_response rm) of
             Some emailError \<Rightarrow> ConsoleError ''Error sending confirmation email:'' emailError
           | None \<Rightarrow> ConsoleLog ''Confirmation email sent successfully'')]\<rparr>"
  by (simp add: handleSubmit_def handleSubmit_begin_valid resolve_def handleSubmit_inserted_def
      handleSubmit_invoked_def Let_def finally_block_def perform_def setIsSubmitting_def
      setFormData_def addLead_def setSubmitted_def split: option.splits)

lemma valid_ana: "validateLeadForm simple_email (formData (comp (fresh_world ana_form))) = []"
  by (simp add: validateLeadForm_def simple_email_def fresh_world_def ana_form_def trim_def
      is_space_def industry_options_def)

lemma invalid_bad:
  "validateLeadForm simple_email (formData (comp (fresh_world bad_form))) =
     [\<lparr>field = ''name'', message = ''required''\<rparr>,
      \<lparr>field = ''email'', message = ''format''\<rparr>,
      \<lparr>field = ''industry'', message = ''required''\<rparr>]"
  by (simp add: validateLeadForm_def simple_email_def fresh_world_def bad_form_def trim_def
      is_space_def industry_options_def)

lemma sample_session_id:
  "fst (getOrCreateSessionId sample_clock (localStorage (fresh_world fd))) =
     ''session_1720000000123_k3j9x0a1b''"
  by (simp add: getOrCreateSessionId_def getItem_def fresh_world_def sample_clock_def Let_def
      generateSessionId_def number_to_string.simps digit_char_def digits_def)

section \<open>The claims about the submission handler\<close>

text \<open>
  C1. Whenever the form is valid and the insert into the table fails, the handler never
  invokes the notification function: what it does to the outside is the insert and two
  lines on the error console. No lead is appended to the store, the store is left as it
  was (so a \<^verbatim>\<open>submitted\<close> flag that was false is still false), the form fields keep
  their values, and the in-flight flag is off again.
\<close>

theorem persistence_failure_commits_nothing:
  assumes "validate (formData (comp w)) = []"
    and "error (insert_response rm) = Some dbError"
  shows "emitted w (handleSubmit validate clk rm w) =
           [DbInsert ''leads'' (row_of clk w),
            ConsoleError ''Error saving to database:'' dbError,
            ConsoleError ''Error submitting form:'' ''Failed to save lead data''] \<and>
         \<not> list_ex is_invoke (emitted w (handleSubmit validate clk rm w)) \<and>
         store (handleSubmit validate clk rm w) = store w \<and>
         sessionLeads (store (handleSubmit validate clk rm w)) = sessionLeads (store w) \<and>
         submitted (store (handleSubmit validate clk rm w)) = submitted (store w) \<and>
         formData (comp (handleSubmit validate clk rm w)) = formData (comp w) \<and>
         \<not> isSubmitting (comp (handleSubmit validate clk rm w))"
  using assms by (simp add: handleSubmit_insert_failed emitted_def)

theorem persistence_failure_commits_nothing_witness:
  "validateLeadForm simple_email (formData (comp (fresh_world ana_form))) = [] \<and>
   error (insert_response (outcome (failed ''db down'') succeeded)) = Some ''db down'' \<and>
   emitted (fresh_world ana_form)
     (handleSubmit (validateLeadForm simple_email) sample_clock
        (outcome (failed ''db down'') succeeded) (fresh_world ana_form)) =
     [DbInsert ''leads''
        \<lparr>name = ''Ana'', email = ''ana@x.com'', industry = ''technology'',
         session_id = ''session_1720000000123_k3j9x0a1b''\<rparr>,
      ConsoleError ''Error saving to database:'' ''db down'',
      ConsoleError ''Error submitting form:'' ''Failed to save lead data''] \<and>
   sessionLeads (store (handleSubmit (validateLeadForm simple_email) sample_clock
        (outcome (failed ''db down'') succeeded) (fresh_world ana_form))) = [] \<and>
   \<not> submitted (store (handleSubmit (validateLeadForm simple_email) sample_clock
        (outcome (failed ''db down'') succeeded) (fresh_world ana_form))) \<and>
   formData (comp (handleSubmit (validateLeadForm simple_email) sample_clock
        (outcome (failed ''db down'') succeeded) (fresh_world ana_form))) = ana_form"
proof -
  have v: "validateLeadForm simple_email (formData (comp (fresh_world ana_form))) = []"
    by (rule valid_ana)
  have e: "error (insert_response (outcome (failed ''db down'') succeeded)) = Some ''db down''"
    by (simp add: outcome_def failed_def)
  show ?thesis
    using persistence_failure_commits_nothing
      [where validate = "validateLeadForm simple_email" and w = "fresh_world ana_form"
         and rm = "outcome (failed ''db down'') succeeded" and dbError = "''db down''"
         and clk = sample_clock] v e
    by (simp add: sample_session_id) (simp add: fresh_world_def initial_store_def ana_form_def)
qed

text \<open>
  C2. Whenever the form is valid, the insert succeeds and the invocation of the
  notification function fails, the run still ends in success: the lead is appended to the
  store, \<^verbatim>\<open>submitted\<close> is true and the form fields are reset. The failure shows
  only as a line on the error console: component, store and local storage end exactly as
  they do when the notification succeeds. The store at the end is the one before with
  \<^verbatim>\<open>addLead\<close> of the lead and \<^verbatim>\<open>setSubmitted(true)\<close> applied.
\<close>

theorem notification_failure_is_only_logged:
  assumes "validate (formData (comp w)) = []"
    and "error (insert_response rm) = None"
    and "error (invoke_response rm) = Some emailError"
  shows "sessionLeads (store (handleSubmit validate clk rm w)) =
           sessionLeads (store w) @
             [\<lparr>name = name (formData (comp w)), email = email (formData (comp w)),
               industry = industry (formData (comp w)), session_id = sid clk w,
               submitted_at = completion_time rm\<rparr>] \<and>
         submitted (store (handleSubmit validate clk rm w)) \<and>
         formData (comp (handleSubmit validate clk rm w)) =
           \<lparr>name = '''', email = '''', industry = ''''\<rparr> \<and>
         \<not> isSubmitting (comp (handleSubmit validate clk rm w)) \<and>
         emitted w (handleSubmit validate clk rm w) =
           [DbInsert ''leads'' (row_of clk w),
            FnInvoke ''send-confirmation'' (formData (comp w)),
            ConsoleError ''Error sending confirmation email:'' emailError] \<and>
         comp (handleSubmit validate clk rm w) =
           comp (handleSubmit validate clk (rm\<lparr>invoke_response := succeeded\<rparr>) w) \<and>
         store (handleSubmit validate clk rm w) =
           store (handleSubmit validate clk (rm\<lparr>invoke_response := succeeded\<rparr>) w) \<and>
         localStorage (handleSubmit validate clk rm w) =
           localStorage (handleSubmit validate clk (rm\<lparr>invoke_response := succeeded\<rparr>) w) \<and>
         store (handleSubmit validate clk rm w) =
           setSubmitted True
             (addLead
                \<lparr>name = name (formData (comp w)), email = email (formData (comp w)),
                 industry = industry (formData (comp w)), session_id = sid clk w,
                 submitted_at = completion_time rm\<rparr>
                (store w))"
  using assms by (simp add: handleSubmit_persisted emitted_def addLead_def setSubmitted_def)

theorem notification_failure_is_only_logged_witness:
  "validateLeadForm simple_email (formData (comp (fresh_world ana_form))) = [] \<and>
   error (insert_response (outcome succeeded (failed ''smtp down''))) = None \<and>
   error (invoke_response (outcome succeeded (failed ''smtp down''))) = Some ''smtp down'' \<and>
   sessionLeads (store (handleSubmit (validateLeadForm simple_email) sample_clock
        (outcome succeeded (failed ''smtp down'')) (fresh_world ana_form))) =
     [\<lparr>name = ''Ana'', email = ''ana@x.com'', industry = ''technology'',
       session_id = ''session_1720000000123_k3j9x0a1b'',
       submitted_at = ''2024-07-03T09:46:40.500Z''\<rparr>] \<and>
   submitted (store (handleSubmit (validateLeadForm simple_email) sample_clock
        (outcome succeeded (failed ''smtp down'')) (fresh_world ana_form))) \<and>
   formData (comp (handleSubmit (validateLeadForm simple_email) sample_clock
        (outcome succeeded (failed ''smtp down'')) (fresh_world ana_form))) = empty_form \<and>
   emitted (fresh_world ana_form)
     (handleSubmit (validateLeadForm simple_email) sample_clock
        (outcome succeeded (failed ''smtp down'')) (fresh_world ana_form)) =
     [DbInsert ''leads''
        \<lparr>name = ''Ana'', email = ''ana@x.com'', industry = ''technology'',
         session_id = ''session_1720000000123_k3j9x0a1b''\<rparr>,
      FnInvoke ''send-confirmation'' ana_form,
      ConsoleError ''Error sending confirmation email:'' ''smtp down'']"
proof -
  have v: "validateLeadForm simple_email (formData (comp (fresh_world ana_form))) = []"
    by (rule valid_ana)
  have d: "error (insert_response (outcome succeeded (failed ''smtp down''))) = None"
    by (simp add: outcome_def succeeded_def)
  have e: "error (invoke_response (outcome succeeded (failed ''smtp down''))) = Some ''smtp down''"
    by (simp add: outcome_def failed_def)
  have t: "completion_time (outcome succeeded (failed ''smtp down'')) = ''2024-07-03T09:46:40.500Z''"
    by (simp add: outcome_def)
  note h = notification_failure_is_only_logged
      [where validate = "validateLeadForm simple_email" and w = "fresh_world ana_form"
         and rm = "outcome succeeded (failed ''smtp down'')" and emailError = "''smtp down''"
         and clk = sample_clock, OF v d e]
  have leads: "sessionLeads (store (handleSubmit (validateLeadForm simple_email) sample_clock
        (outcome succeeded (failed ''smtp down'')) (fresh_world ana_form))) =
     [\<lparr>name = ''Ana'', email = ''ana@x.com'', industry = ''technology'',
       session_id = ''session_1720000000123_k3j9x0a1b'',
       submitted_at = ''2024-07-03T09:46:40.500Z''\<rparr>]"
    using h [THEN conjunct1]
    by (simp add: sample_session_id t) (simp add: fresh_world_def initial_store_def ana_form_def)
  have flag: "submitted (store (handleSubmit (validateLeadForm simple_email) sample_clock
        (outcome succeeded (failed ''smtp down'')) (fresh_world ana_form)))"
    using h [THEN conjunct2, THEN conjunct1] .
  have reset: "formData (comp (handleSubmit (validateLeadForm simple_email) sample_clock
        (outcome succeeded (failed ''smtp down'')) (fresh_world ana_form))) = empty_form"
    using h [THEN conjunct2, THEN conjunct2, THEN conjunct1] by (simp add: empty_form_def)
  have logged: "emitted (fresh_world ana_form)
     (handleSubmit (validateLeadForm simple_email) sample_clock
        (outcome succeeded (failed ''smtp down'')) (fresh_world ana_form)) =
     [DbInsert ''leads''
        \<lparr>name = ''Ana'', email = ''ana@x.com'', industry = ''technology'',
         session_id = ''session_1720000000123_k3j9x0a1b''\<rparr>,
      FnInvoke ''send-confirmation'' ana_form,
      ConsoleError ''Error sending confirmation email:'' ''smtp down'']"
    using h [THEN conjunct2, THEN conjunct2, THEN conjunct2, THEN conjunct2, THEN conjunct1]
    by (simp add: sample_session_id) (simp add: fresh_world_def ana_form_def)
  from v d e leads flag reset logged show ?thesis
    by blast
qed

text \<open>
  C3. Whenever the form is valid and both remote calls succeed, a lead is appended to the
  store whose \<^verbatim>\<open>session_id\<close> is the identifier \<^verbatim>\<open>getOrCreateSessionId\<close>
  returned to the handler; that identifier is the one now stored, and the one a later
  call returns. \<^verbatim>\<open>submitted\<close> is true and the three form fields are the empty
  string. The store at the end is the one before with \<^verbatim>\<open>addLead\<close> of the lead
  and \<^verbatim>\<open>setSubmitted(true)\<close> applied.
\<close>

theorem successful_submission_records_lead:
  assumes "validate (formData (comp w)) = []"
    and "error (insert_response rm) = None"
    and "error (invoke_response rm) = None"
  shows "sessionLeads (store (handleSubmit validate clk rm w)) =
           sessionLeads (store w) @
             [\<lparr>name = name (formData (comp w)), email = email (formData (comp w)),
               industry = industry (formData (comp w)),
               session_id = fst (getOrCreateSessionId clk (localStorage w)),
               submitted_at = completion_time rm\<rparr>] \<and>
         session_id (last (sessionLeads (store (handleSubmit validate clk rm w)))) =
           fst (getOrCreateSessionId clk (localStorage w)) \<and>
         getItem (localStorage (handleSubmit validate clk rm w)) SESSION_KEY =
           Some (session_id (last (sessionLeads (store (handleSubmit validate clk rm w))))) \<and>
         fst (getOrCreateSessionId clk' (localStorage (handleSubmit validate clk rm w))) =
           session_id (last (sessionLeads (store (handleSubmit validate clk rm w)))) \<and>
         submitted (store (handleSubmit validate clk rm w)) \<and>
         formData (comp (handleSubmit validate clk rm w)) =
           \<lparr>name = '''', email = '''', industry = ''''\<rparr> \<and>
         emitted w (handleSubmit validate clk rm w) =
           [DbInsert ''leads'' (row_of clk w),
            FnInvoke ''send-confirmation'' (formData (comp w)),
            ConsoleLog ''Confirmation email sent successfully''] \<and>
         store (handleSubmit validate clk rm w) =
           setSubmitted True
             (addLead
                \<lparr>name = name (formData (comp w)), email = email (formData (comp w)),
                 industry = industry (formData (comp w)),
                 session_id = fst (getOrCreateSessionId clk (localStorage w)),
                 submitted_at = completion_time rm\<rparr>
                (store w))"
proof -
  have again: "fst (getOrCreateSessionId clk' (snd (getOrCreateSessionId clk (localStorage w)))) =
      fst (getOrCreateSessionId clk (localStorage w))"
    using getOrCreateSessionId_reads_stored
      [OF getOrCreateSessionId_stored getOrCreateSessionId_nonempty] by simp
  show ?thesis
    using assms
    by (simp add: handleSubmit_persisted emitted_def getOrCreateSessionId_stored again
        addLead_def setSubmitted_def)
qed

theorem successful_submission_records_lead_witness:
  "validateLeadForm simple_email (formData (comp (fresh_world ana_form))) = [] \<and>
   error (insert_response (outcome succeeded succeeded)) = None \<and>
   error (invoke_response (outcome succeeded succeeded)) = None \<and>
   sessionLeads (store (handleSubmit (validateLeadForm simple_email) sample_clock
        (outcome succeeded succeeded) (fresh_world ana_form))) =
     [\<lparr>name = ''Ana'', email = ''ana@x.com'', industry = ''technology'',
       session_id = ''session_1720000000123_k3j9x0a1b'',
       submitted_at = ''2024-07-03T09:46:40.500Z''\<rparr>] \<and>
   submitted (store (handleSubmit (validateLeadForm simple_email) sample_clock
        (outcome succeeded succeeded) (fresh_world ana_form))) \<and>
   formData (comp (handleSubmit (validateLeadForm simple_email) sample_clock
        (outcome succeeded succeeded) (fresh_world ana_form))) = empty_form"
proof -
  have v: "validateLeadForm simple_email (formData (comp (fresh_world ana_form))) = []"
    by (rule valid_ana)
  have d: "error (insert_response (outcome succeeded succeeded)) = None"
    by (simp add: outcome_def succeeded_def)
  have e: "error (invoke_response (outcome succeeded succeeded)) = None"
    by (simp add: outcome_def succeeded_def)
  have t: "completion_time (outcome succeeded succeeded) = ''2024-07-03T09:46:40.500Z''"
    by (simp add: outcome_def)
  note h = successful_submission_records_lead
      [where validate = "validateLeadForm simple_email" and w = "fresh_world ana_form"
         and rm = "outcome succeeded succeeded" and clk = sample_clock and clk' = later_clock,
       OF v d e]
  have leads: "sessionLeads (store (handleSubmit (validateLeadForm simple_email) sample_clock
        (outcome succeeded succeeded) (fresh_world ana_form))) =
     [\<lparr>name = ''Ana'', email = ''ana@x.com'', industry = ''technology'',
       session_id = ''session_1720000000123_k3j9x0a1b'',
       submitted_at = ''2024-07-03T09:46:40.500Z''\<rparr>]"
    using h [THEN conjunct1]
    by (simp add: sample_session_id t) (simp add: fresh_world_def initial_store_def ana_form_def)
  have flag: "submitted (store (handleSubmit (validateLeadForm simple_email) sample_clock
        (outcome succeeded succeeded) (fresh_world ana_form)))"
    using h [THEN conjunct2, THEN conjunct2, THEN conjunct2, THEN conjunct2, THEN conjunct1] .
  have reset: "formData (comp (handleSubmit (validateLeadForm simple_email) sample_clock
        (outcome succeeded succeeded) (fresh_world ana_form))) = empty_form"
    using h [THEN conjunct2, THEN conjunct2, THEN conjunct2, THEN conjunct2, THEN conjunct2,
      THEN conjunct1]
    by (simp add: empty_form_def)
  from v d e leads flag reset show ?thesis
    by blast
qed

text \<open>
  C4. Whenever validation returns errors, the run ends at once: nothing is left pending,
  the world is the one before with the errors recorded in the component, so no remote
  call (no effect at all) was made, the in-flight flag was not touched and the store is
  unchanged.
\<close>

theorem invalid_form_makes_no_remote_call:
  assumes "validate (formData (comp w)) \<noteq> []"
  shows "handleSubmit_begin validate clk w =
           (setValidationErrors (validate (formData (comp w))) w, None) \<and>
         handleSubmit validate clk rm w = setValidationErrors (validate (formData (comp w))) w \<and>
         emitted w (handleSubmit validate clk rm w) = [] \<and>
         \<not> list_ex is_remote_call (emitted w (handleSubmit validate clk rm w)) \<and>
         isSubmitting (comp (handleSubmit validate clk rm w)) = isSubmitting (comp w) \<and>
         store (handleSubmit validate clk rm w) = store w \<and>
         validationErrors (comp (handleSubmit validate clk rm w)) = validate (formData (comp w))"
  using assms
  by (simp add: handleSubmit_invalid handleSubmit_begin_invalid emitted_def
      setValidationErrors_def)

theorem invalid_form_makes_no_remote_call_witness:
  "validateLeadForm simple_email (formData (comp (fresh_world bad_form))) \<noteq> [] \<and>
   validationErrors (comp (handleSubmit (validateLeadForm simple_email) sample_clock
      (outcome succeeded succeeded) (fresh_world bad_form))) =
     [\<lparr>field = ''name'', message = ''required''\<rparr>,
      \<lparr>field = ''email'', message = ''format''\<rparr>,
      \<lparr>field = ''industry'', message = ''required''\<rparr>] \<and>
   emitted (fresh_world bad_form) (handleSubmit (validateLeadForm simple_email) sample_clock
      (outcome succeeded succeeded) (fresh_world bad_form)) = [] \<and>
   \<not> isSubmitting (comp (handleSubmit (validateLeadForm simple_email) sample_clock
      (outcome succeeded succeeded) (fresh_world bad_form))) \<and>
   store (handleSubmit (validateLeadForm simple_email) sample_clock
      (outcome succeeded succeeded) (fresh_world bad_form)) = initial_store"
proof -
  have v: "validateLeadForm simple_email (formData (comp (fresh_world bad_form))) \<noteq> []"
    by (simp add: invalid_bad)
  note h = invalid_form_makes_no_remote_call
      [where validate = "validateLeadForm simple_email" and w = "fresh_world bad_form"
         and rm = "outcome succeeded succeeded" and clk = sample_clock, OF v]
  have errs: "validationErrors (comp (handleSubmit (validateLeadForm simple_email) sample_clock
      (outcome succeeded succeeded) (fresh_world bad_form))) =
     [\<lparr>field = ''name'', message = ''required''\<rparr>,
      \<lparr>field = ''email'', message = ''format''\<rparr>,
      \<lparr>field = ''industry'', message = ''required''\<rparr>]"
    using h [THEN conjunct2, THEN conjunct2, THEN conjunct2, THEN conjunct2, THEN conjunct2,
      THEN conjunct2]
    by (simp add: invalid_bad)
  have none: "emitted (fresh_world bad_form) (handleSubmit (validateLeadForm simple_email)
      sample_clock (outcome succeeded succeeded) (fresh_world bad_form)) = []"
    using h [THEN conjunct2, THEN conjunct2, THEN conjunct1] .
  have flag: "\<not> isSubmitting (comp (handleSubmit (validateLeadForm simple_email) sample_clock
      (outcome succeeded succeeded) (fresh_world bad_form)))"
    using h [THEN conjunct2, THEN conjunct2, THEN conjunct2, THEN conjunct2, THEN conjunct1]
    by (simp add: fresh_world_def)
  have st: "store (handleSubmit (validateLeadForm simple_email) sample_clock
      (outcome succeeded succeeded) (fresh_world bad_form)) = initial_store"
    using h [THEN conjunct2, THEN conjunct2, THEN conjunct2, THEN conjunct2, THEN conjunct2,
      THEN conjunct1]
    by (simp add: fresh_world_def)
  from v errs none flag st show ?thesis
    by blast
qed

text \<open>
  C5, as stated, fails. A valid form is submitted and the insert fails: what is rendered
  afterwards is what was rendered before the click, and the store is the same, so nothing
  the user can see tells that the submission failed.
\<close>

theorem persistence_failure_not_shown_counterexample:
  "error (insert_response (outcome (failed ''db down'') succeeded)) = Some ''db down'' \<and>
   render (comp (handleSubmit (validateLeadForm simple_email) sample_clock
      (outcome (failed ''db down'') succeeded) (fresh_world ana_form))) =
     render (comp (fresh_world ana_form)) \<and>
   comp (handleSubmit (validateLeadForm simple_email) sample_clock
      (outcome (failed ''db down'') succeeded) (fresh_world ana_form)) =
     comp (fresh_world ana_form) \<and>
   store (handleSubmit (validateLeadForm simple_email) sample_clock
      (outcome (failed ''db down'') succeeded) (fresh_world ana_form)) =
     store (fresh_world ana_form)"
proof -
  have e: "error (insert_response (outcome (failed ''db down'') succeeded)) = Some ''db down''"
    by (simp add: outcome_def failed_def)
  have c: "comp (handleSubmit (validateLeadForm simple_email) sample_clock
      (outcome (failed ''db down'') succeeded) (fresh_world ana_form)) =
     comp (fresh_world ana_form)"
    by (simp add: handleSubmit_insert_failed [where dbError = "''db down''"] valid_ana e)
       (simp add: fresh_world_def)
  have s: "store (handleSubmit (validateLeadForm simple_email) sample_clock
      (outcome (failed ''db down'') succeeded) (fresh_world ana_form)) =
     store (fresh_world ana_form)"
    by (simp add: handleSubmit_insert_failed [where dbError = "''db down''"] valid_ana e)
  from e c s show ?thesis by simp
qed

text \<open>
  C5, amended. Whenever the form is valid and the insert fails, the failure is written
  to the error console and nowhere else: the form is rendered idle, with the values the
  user entered, no error paragraph under any control, the controls and the button
  enabled and the button's idle label; the store is unchanged.
\<close>

theorem persistence_failure_only_on_console:
  assumes "validate (formData (comp w)) = []"
    and "error (insert_response rm) = Some dbError"
  shows "render (comp (handleSubmit validate clk rm w)) =
           \<lparr>name_control =
              \<lparr>shown = name (formData (comp w)), disabled = False, error_text = None\<rparr>,
            email_control =
              \<lparr>shown = email (formData (comp w)), disabled = False, error_text = None\<rparr>,
            industry_control =
              \<lparr>shown = industry (formData (comp w)), disabled = False, error_text = None\<rparr>,
            button_disabled = False, button_label = ''Get Early Access''\<rparr> \<and>
         formData (comp (handleSubmit validate clk rm w)) = formData (comp w) \<and>
         validationErrors (comp (handleSubmit validate clk rm w)) = [] \<and>
         store (handleSubmit validate clk rm w) = store w \<and>
         filter (\<lambda>e. \<not> is_remote_call e) (emitted w (handleSubmit validate clk rm w)) =
           [ConsoleError ''Error saving to database:'' dbError,
            ConsoleError ''Error submitting form:'' ''Failed to save lead data'']"
  using assms
  by (simp add: handleSubmit_insert_failed emitted_def render_def render_control_def
      getFieldError_def)

theorem persistence_failure_only_on_console_witness:
  "validateLeadForm simple_email (formData (comp (fresh_world ana_form))) = [] \<and>
   error (insert_response (outcome (failed ''db down'') succeeded)) = Some ''db down'' \<and>
   render (comp (handleSubmit (validateLeadForm simple_email) sample_clock
      (outcome (failed ''db down'') succeeded) (fresh_world ana_form))) =
     \<lparr>name_control = \<lparr>shown = ''Ana'', disabled = False, error_text = None\<rparr>,
      email_control = \<lparr>shown = ''ana@x.com'', disabled = False, error_text = None\<rparr>,
      industry_control = \<lparr>shown = ''technology'', disabled = False, error_text = None\<rparr>,
      button_disabled = False, button_label = ''Get Early Access''\<rparr> \<and>
   filter (\<lambda>e. \<not> is_remote_call e) (emitted (fresh_world ana_form)
     (handleSubmit (validateLeadForm simple_email) sample_clock
        (outcome (failed ''db down'') succeeded) (fresh_world ana_form))) =
     [ConsoleError ''Error saving to database:'' ''db down'',
      ConsoleError ''Error submitting form:'' ''Failed to save lead data'']"
proof -
  have v: "validateLeadForm simple_email (formData (comp (fresh_world ana_form))) = []"
    by (rule valid_ana)
  have e: "error (insert_response (outcome (failed ''db down'') succeeded)) = Some ''db down''"
    by (simp add: outcome_def failed_def)
  note h = persistence_failure_only_on_console
      [where validate = "validateLeadForm simple_email" and w = "fresh_world ana_form"
         and rm = "outcome (failed ''db down'') succeeded" and dbError = "''db down''"
         and clk = sample_clock, OF v e]
  have shown: "render (comp (handleSubmit (validateLeadForm simple_email) sample_clock
      (outcome (failed ''db down'') succeeded) (fresh_world ana_form))) =
     \<lparr>name_control = \<lparr>shown = ''Ana'', disabled = False, error_text = None\<rparr>,
      email_control = \<lparr>shown = ''ana@x.com'', disabled = False, error_text = None\<rparr>,
      industry_control = \<lparr>shown = ''technology'', disabled = False, error_text = None\<rparr>,
      button_disabled = False, button_label = ''Get Early Access''\<rparr>"
    using h [THEN conjunct1] by (simp add: fresh_world_def ana_form_def)
  have logged: "filter (\<lambda>e. \<not> is_remote_call e) (emitted (fresh_world ana_form)
     (handleSubmit (validateLeadForm simple_email) sample_clock
        (outcome (failed ''db down'') succeeded) (fresh_world ana_form))) =
     [ConsoleError ''Error saving to database:'' ''db down'',
      ConsoleError ''Error submitting form:'' ''Failed to save lead data'']"
    using h [THEN conjunct2, THEN conjunct2, THEN conjunct2, THEN conjunct2] .
  from v e shown logged show ?thesis
    by blast
qed

lemma settle_flag:
  "(case settle rm p w of
      (w1, Some p1) \<Rightarrow> isSubmitting (comp w1) = isSubmitting (comp w)
    | (w1, None) \<Rightarrow> \<not> isSubmitting (comp w1))"
  by (cases p)
     (simp_all add: handleSubmit_inserted_def handleSubmit_invoked_def Let_def finally_block_def
       catch_block_def perform_def setIsSubmitting_def setFormData_def split: option.splits)

lemma resolve_flag: "\<not> isSubmitting (comp (resolve rm p w))"
proof (cases "settle rm p w")
  case (Pair w1 next1)
  show ?thesis
  proof (cases next1)
    case None
    with Pair settle_flag [where rm = rm and p = p and w = w] show ?thesis
      by (simp add: resolve_def)
  next
    case (Some p1)
    obtain w2 next2 where s2: "settle rm p1 w1 = (w2, next2)"
      by (cases "settle rm p1 w1")
    from Pair Some have "p1 = AwaitInvoke (case p of AwaitInsert fd s \<Rightarrow> fd | AwaitInvoke fd s \<Rightarrow> fd)
        (case p of AwaitInsert fd s \<Rightarrow> s | AwaitInvoke fd s \<Rightarrow> s)"
      by (cases p) (auto simp add: handleSubmit_inserted_def split: option.splits)
    then obtain fd s where "p1 = AwaitInvoke fd s" by blast
    with s2 have "next2 = None" by auto
    with s2 settle_flag [where rm = rm and p = p1 and w = w1] have "\<not> isSubmitting (comp w2)" by simp
    with Pair Some s2 show ?thesis
      by (simp add: resolve_def)
  qed
qed

text \<open>
  The handler itself does not look at the in-flight flag: called in a world where the
  flag is on, with a valid form, it issues the insert again. What keeps a second
  submission out is the disabled button.
\<close>

lemma handleSubmit_has_no_guard_of_its_own:
  "isSubmitting (comp w) \<Longrightarrow> validate (formData (comp w)) = [] \<Longrightarrow>
   emitted w (fst (handleSubmit_begin validate clk w)) = [DbInsert ''leads'' (row_of clk w)]"
  by (simp add: handleSubmit_begin_valid emitted_def)

lemma in_flight_eq:
  "click_submit (validateLeadForm simple_email) sample_clock (fresh_world ana_form) =
     (in_flight, Some (AwaitInsert ana_form ''session_1720000000123_k3j9x0a1b''))"
  "isSubmitting (comp in_flight)"
  unfolding in_flight_def
  by (simp_all add: click_submit_def render_def handleSubmit_begin_valid valid_ana sample_session_id)
     (simp_all add: fresh_world_def)

text \<open>
  C6. In a world whose in-flight flag is on, the submit button is rendered disabled and a
  click on it is ignored: the world is unchanged and nothing more is pending. Resuming
  the suspended handler leaves the flag on as long as something is still pending, and
  turns it off when the attempt ends; run to its end, on any outcome of the remote
  calls, the attempt ends with the flag off.
\<close>

theorem in_flight_submission_blocks_reentry:
  assumes "isSubmitting (comp w)"
  shows "button_disabled (render (comp w)) \<and>
         click_submit validate clk w = (w, None) \<and>
         (case settle rm p w of
            (w1, Some p1) \<Rightarrow> isSubmitting (comp w1)
          | (w1, None) \<Rightarrow> \<not> isSubmitting (comp w1)) \<and>
         \<not> isSubmitting (comp (resolve rm p w))"
proof -
  have "button_disabled (render (comp w))"
    using assms by (simp add: render_def)
  moreover have "click_submit validate clk w = (w, None)"
    using assms by (simp add: click_submit_def render_def)
  moreover have "(case settle rm p w of
            (w1, Some p1) \<Rightarrow> isSubmitting (comp w1)
          | (w1, None) \<Rightarrow> \<not> isSubmitting (comp w1))"
    using settle_flag [where rm = rm and p = p and w = w] assms by (auto split: prod.splits option.splits)
  ultimately show ?thesis
    using resolve_flag by blast
qed

theorem in_flight_submission_blocks_reentry_witness:
  "isSubmitting (comp in_flight) \<and>
   click_submit (validateLeadForm simple_email) later_clock in_flight = (in_flight, None) \<and>
   \<not> isSubmitting (comp (resolve (outcome succeeded succeeded)
        (AwaitInsert ana_form ''session_1720000000123_k3j9x0a1b'') in_flight)) \<and>
   \<not> isSubmitting (comp (resolve (outcome (failed ''db down'') succeeded)
        (AwaitInsert ana_form ''session_1720000000123_k3j9x0a1b'') in_flight))"
  using in_flight_submission_blocks_reentry
      [where w = in_flight and validate = "validateLeadForm simple_email" and clk = later_clock
         and rm = "outcome succeeded succeeded"
         and p = "AwaitInsert ana_form ''session_1720000000123_k3j9x0a1b''", OF in_flight_eq(2)]
    in_flight_submission_blocks_reentry
      [where w = in_flight and validate = "validateLeadForm simple_email" and clk = later_clock
         and rm = "outcome (failed ''db down'') succeeded"
         and p = "AwaitInsert ana_form ''session_1720000000123_k3j9x0a1b''", OF in_flight_eq(2)]
    in_flight_eq(2)
  by blast

section \<open>The claims about the session identity\<close>

lemma getOrCreateSessionId_again:
  "getOrCreateSessionId clk2 (snd (getOrCreateSessionId clk1 ls)) =
     (fst (getOrCreateSessionId clk1 ls), snd (getOrCreateSessionId clk1 ls))"
  using getOrCreateSessionId_reads_stored
    [OF getOrCreateSessionId_stored getOrCreateSessionId_nonempty] .

lemma getOrCreateSessionId_same_entry:
  "getItem ls' SESSION_KEY = getItem (snd (getOrCreateSessionId clk1 ls)) SESSION_KEY \<Longrightarrow>
   fst (getOrCreateSessionId clk2 ls') = fst (getOrCreateSessionId clk1 ls)"
  using getOrCreateSessionId_reads_stored [of ls' "fst (getOrCreateSessionId clk1 ls)" clk2]
  by (simp add: getOrCreateSessionId_stored getOrCreateSessionId_nonempty)

text \<open>
  C7. From any storage, a call of \<^verbatim>\<open>getOrCreateSessionId\<close> leaves the identifier
  it returns stored under the key, and a second call, whatever the time and the random
  draw then, returns the same identifier and leaves the storage as it is.
\<close>

theorem getOrCreateSessionId_idempotent:
  "fst (getOrCreateSessionId clk2 (snd (getOrCreateSessionId clk1 ls))) =
     fst (getOrCreateSessionId clk1 ls) \<and>
   getItem (snd (getOrCreateSessionId clk1 ls)) SESSION_KEY =
     Some (fst (getOrCreateSessionId clk1 ls)) \<and>
   snd (getOrCreateSessionId clk2 (snd (getOrCreateSessionId clk1 ls))) =
     snd (getOrCreateSessionId clk1 ls)"
  by (simp add: getOrCreateSessionId_again getOrCreateSessionId_stored)

theorem getOrCreateSessionId_idempotent_witness:
  "fst (getOrCreateSessionId sample_clock Map.empty) = ''session_1720000000123_k3j9x0a1b'' \<and>
   fst (getOrCreateSessionId later_clock (snd (getOrCreateSessionId sample_clock Map.empty))) =
     ''session_1720000000123_k3j9x0a1b''"
proof -
  have first: "fst (getOrCreateSessionId sample_clock Map.empty) =
      ''session_1720000000123_k3j9x0a1b''"
    by (simp add: getOrCreateSessionId_def getItem_def sample_clock_def Let_def
        generateSessionId_def number_to_string.simps digit_char_def digits_def)
  with getOrCreateSessionId_idempotent [of later_clock sample_clock Map.empty]
  show ?thesis by simp
qed

text \<open>
  C8. \<^verbatim>\<open>clearSessionId\<close> removes the stored identifier; the next
  \<^verbatim>\<open>getOrCreateSessionId\<close> generates an identifier from the time and the random
  draw of that moment, stores it and returns it. The generated identifier equals one
  generated before exactly when both the time and the random draw are the same: it
  differs from every earlier one made at another millisecond or with another draw.
\<close>

theorem clearSessionId_then_fresh_identifier:
  "getItem (clearSessionId ls) SESSION_KEY = None \<and>
   fst (getOrCreateSessionId clk (clearSessionId ls)) = generateSessionId clk \<and>
   getItem (snd (getOrCreateSessionId clk (clearSessionId ls))) SESSION_KEY =
     Some (generateSessionId clk) \<and>
   (generateSessionId clk = generateSessionId clk0) =
     (now clk = now clk0 \<and> random_suffix clk = random_suffix clk0)"
proof -
  have "generateSessionId clk = generateSessionId clk0"
    if "now clk = now clk0" and "random_suffix clk = random_suffix clk0"
    using that by (simp add: generateSessionId_def)
  then show ?thesis
    using generateSessionId_inj [of clk clk0]
    by (auto simp add: clearSessionId_def removeItem_def getItem_def setItem_def
        getOrCreateSessionId_def Let_def)
qed

theorem clearSessionId_then_fresh_identifier_witness:
  "fst (getOrCreateSessionId later_clock
     (clearSessionId (snd (getOrCreateSessionId sample_clock Map.empty)))) =
     ''session_1720000000456_zz81hq0p2'' \<and>
   generateSessionId later_clock \<noteq> generateSessionId sample_clock"
proof -
  have g: "generateSessionId later_clock = ''session_1720000000456_zz81hq0p2''"
    by (simp add: later_clock_def generateSessionId_def number_to_string.simps digit_char_def
        digits_def)
  have n: "now later_clock \<noteq> now sample_clock"
    by (simp add: later_clock_def sample_clock_def)
  from clearSessionId_then_fresh_identifier
    [of "snd (getOrCreateSessionId sample_clock Map.empty)" later_clock sample_clock] g n
  show ?thesis by simp
qed

text \<open>
  C9. From any storage \<^verbatim>\<open>getOrCreateSessionId\<close> returns a non-empty string; a stored
  empty string counts as absent and is replaced by a generated identifier. So every row
  the handler hands to the table and every lead it appends to the store has a non-empty
  \<^verbatim>\<open>session_id\<close>.
\<close>

theorem session_id_is_never_empty:
  "fst (getOrCreateSessionId clk ls) \<noteq> [] \<and>
   fst (getOrCreateSessionId clk (setItem ls SESSION_KEY '''')) = generateSessionId clk \<and>
   list_all (\<lambda>r. session_id r \<noteq> [])
     (inserted_rows (emitted w (handleSubmit validate clk rm w))) \<and>
   list_all (\<lambda>l. session_id l \<noteq> [])
     (drop (length (sessionLeads (store w)))
        (sessionLeads (store (handleSubmit validate clk rm w))))"
proof -
  have handler: "list_all (\<lambda>r. session_id r \<noteq> [])
       (inserted_rows (emitted w (handleSubmit validate clk rm w))) \<and>
     list_all (\<lambda>l. session_id l \<noteq> [])
       (drop (length (sessionLeads (store w)))
          (sessionLeads (store (handleSubmit validate clk rm w))))"
  proof (cases "validate (formData (comp w)) = []")
    case False
    then show ?thesis
      by (simp add: handleSubmit_invalid emitted_def setValidationErrors_def)
  next
    case valid: True
    show ?thesis
    proof (cases "error (insert_response rm)")
      case (Some dbError)
      with valid show ?thesis
        by (simp add: handleSubmit_insert_failed emitted_def getOrCreateSessionId_nonempty)
    next
      case None
      with valid show ?thesis
        by (simp add: handleSubmit_persisted emitted_def getOrCreateSessionId_nonempty
            split: option.splits)
    qed
  qed
  moreover have "fst (getOrCreateSessionId clk (setItem ls SESSION_KEY '''')) =
      generateSessionId clk"
    by (simp add: getOrCreateSessionId_def getItem_def setItem_def Let_def)
  ultimately show ?thesis
    using getOrCreateSessionId_nonempty by blast
qed


theorem session_id_is_never_empty_witness:
  "fst (getOrCreateSessionId sample_clock [SESSION_KEY \<mapsto> []]) =
     ''session_1720000000123_k3j9x0a1b'' \<and>
   fst (getOrCreateSessionId sample_clock [SESSION_KEY \<mapsto> []]) \<noteq> []"
proof -
  have g: "generateSessionId sample_clock = ''session_1720000000123_k3j9x0a1b''"
    by (simp add: sample_clock_def generateSessionId_def number_to_string.simps digit_char_def
        digits_def)
  from session_id_is_never_empty [of sample_clock "Map.empty"] g
  show ?thesis by (simp add: setItem_def)
qed

section \<open>The claim about the migration\<close>

lemma migration_duplicate_column:
  "columns t ''industry'' = Some col \<Longrightarrow> migration t = Inl (DuplicateColumn ''industry'')"
  by (simp add: migration_def add_column_def)

lemma not_null_before_backfill_fails:
  "columns t ''industry'' = None \<Longrightarrow> rows t \<noteq> [] \<Longrightarrow>
   and_then (add_column ''industry'' ''TEXT'' t) (set_not_null ''industry'') =
     Inl (NotNullViolation ''industry'')"
  by (cases "rows t") (simp_all add: add_column_def set_not_null_def)

text \<open>
  C10. The script runs its four statements in order: add the column, nullable; write
  \<^verbatim>\<open>'Other'\<close> into every row where it is null; set \<^verbatim>\<open>NOT NULL\<close>; set the
  default. On every table that has no industry column yet each statement succeeds, and
  the table at the end has every row it had, each with industry \<^verbatim>\<open>'Other'\<close> and its
  other columns untouched, no row with a null industry, and the column \<^verbatim>\<open>NOT NULL\<close>
  with default \<^verbatim>\<open>'Other'\<close>.
\<close>

theorem migration_backfills_industry:
  assumes "columns t ''industry'' = None"
  shows "and_then (add_column ''industry'' ''TEXT'' t) (update_where_null ''industry'' ''Other'') =
           Inr \<lparr>columns = (columns t)(''industry'' \<mapsto>
                    \<lparr>col_type = ''TEXT'', not_null = False, col_default = None\<rparr>),
                rows = map (\<lambda>r. r(''industry'' \<mapsto> ''Other'')) (rows t)\<rparr> \<and>
         migration t =
           Inr \<lparr>columns = (columns t)(''industry'' \<mapsto>
                    \<lparr>col_type = ''TEXT'', not_null = True, col_default = Some ''Other''\<rparr>),
                rows = map (\<lambda>r. r(''industry'' \<mapsto> ''Other'')) (rows t)\<rparr> \<and>
         (case migration t of
            Inl e \<Rightarrow> False
          | Inr t' \<Rightarrow>
              length (rows t') = length (rows t) \<and>
              \<not> list_ex (\<lambda>r. r ''industry'' = None) (rows t') \<and>
              list_all (\<lambda>r. r ''industry'' = Some ''Other'') (rows t'))"
proof -
  have backfill: "and_then (add_column ''industry'' ''TEXT'' t)
      (update_where_null ''industry'' ''Other'') =
     Inr \<lparr>columns = (columns t)(''industry'' \<mapsto>
              \<lparr>col_type = ''TEXT'', not_null = False, col_default = None\<rparr>),
          rows = map (\<lambda>r. r(''industry'' \<mapsto> ''Other'')) (rows t)\<rparr>"
    using assms by (simp add: add_column_def update_where_null_def)
  have no_null: "\<not> list_ex (\<lambda>r. r ''industry'' = None)
      (map (\<lambda>r. r(''industry'' \<mapsto> ''Other'')) (rows t))"
    by (simp add: list_ex_iff)
  have result: "migration t =
     Inr \<lparr>columns = (columns t)(''industry'' \<mapsto>
              \<lparr>col_type = ''TEXT'', not_null = True, col_default = Some ''Other''\<rparr>),
          rows = map (\<lambda>r. r(''industry'' \<mapsto> ''Other'')) (rows t)\<rparr>"
    unfolding migration_def backfill
    using no_null by (simp add: set_not_null_def set_default_def)
  show ?thesis
    unfolding result using backfill no_null by (simp add: list_all_iff)
qed

theorem migration_backfills_industry_witness:
  "columns legacy_leads ''industry'' = None \<and>
   (case migration legacy_leads of
      Inl e \<Rightarrow> False
    | Inr t' \<Rightarrow>
        map (\<lambda>r. r ''industry'') (rows t') = [Some ''Other'', Some ''Other''] \<and>
        map (\<lambda>r. r ''name'') (rows t') = [Some ''Ana'', Some ''Bo''] \<and>
        map_option not_null (columns t' ''industry'') = Some True \<and>
        map_option col_default (columns t' ''industry'') = Some (Some ''Other''))"
proof -
  have c: "columns legacy_leads ''industry'' = None"
    by (simp add: legacy_leads_def)
  from migration_backfills_industry [OF c, THEN conjunct2, THEN conjunct1] c
  show ?thesis
    by (simp add: legacy_leads_def)
qed

end
